theory Spec2Isabelle
  imports Main "HOL-Library.Word"
begin

section \<open>The start-up sequence of boulder-va (cmd/boulder-va/main.go)\<close>

text \<open>
  The program is one function, \<open>main\<close>, which reads a configuration, builds the
  components of the validation authority by calling constructors of other packages, and
  starts the gRPC server. The packages it calls (cmd, features, cdr, bdns, bgrpc, va)
  lie outside the file. The embedding therefore has three parts:
  \<^item> the configuration, as records with the fields \<open>main\<close> reads;
  \<^item> the objects the constructors return, as terms naming the constructor and the
    arguments \<open>main\<close> passed to it;
  \<^item> the outside world, as a record \<open>env\<close> of functions saying what each fallible call
    returns: its error (\<open>None\<close> is Go's \<open>nil\<close>) and, where \<open>main\<close> looks into the
    returned data, the data.
  \<open>main\<close> yields the list of calls it made, in program order, and how it ended.
\<close>

subsection \<open>Configuration (lines 21-56)\<close>

text \<open>
  Go's \<open>int\<close> is as wide as the platform; \<open>main\<close> only compares such values with
  constants and hands them on, so they are integers here. \<open>int64\<close> and
  \<open>time.Duration\<close> are 64-bit words. The types \<open>cmd.TLSConfig\<close>,
  \<open>cmd.GRPCServerConfig\<close>, \<open>cmd.GoogleSafeBrowsingConfig\<close> and \<open>cmd.SyslogConfig\<close>
  are declared outside the file and only handed on: they are the type parameters
  \<open>'t\<close>, \<open>'g\<close>, \<open>'b\<close> and \<open>'s\<close>. Of \<open>cmd.PortConfig\<close>,
  \<open>cmd.CAADistributedResolverConfig\<close>, \<open>cmd.GRPCClientConfig\<close> and the embedded
  \<open>cmd.ServiceConfig\<close> the records have the fields that \<open>main\<close> reads. The host list
  that \<open>bdns.ReadHostList\<close> returns is a list of names.
\<close>

type_synonym error = string

type_synonym Duration = "64 word"

record PortConfig =
  HTTPPort :: int
  HTTPSPort :: int
  TLSPort :: int

record CAADistributedResolverConfig =
  Timeout :: Duration
  MaxFailures :: int
  Proxies :: "string list"

record GRPCClientConfig =
  ServerAddresses :: "string list"

record ('t, 'g, 'b) VA_config =
  TLS :: 't
  GRPC :: 'g
  DebugAddr :: string
  UserAgent :: string
  IssuerDomain :: string
  PortConfig :: PortConfig
  GoogleSafeBrowsing :: "'b option"
  CAADistributedResolver :: "CAADistributedResolverConfig option"
  DNSTries :: int
  CAASERVFAILExceptions :: string
  RemoteVAs :: "GRPCClientConfig list"
  MaxRemoteValidationFailures :: "64 word"
  Features :: "string \<rightharpoonup> bool"

record Common_config =
  DNSResolver :: string
  DNSTimeout :: string
  DNSAllowLoopbackAddresses :: bool

record ('t, 'g, 'b, 's) config =
  VA :: "('t, 'g, 'b) VA_config"
  Syslog :: 's
  Common :: Common_config

subsection \<open>The objects built at start-up\<close>

text \<open>
  Each constructor is named after the function \<open>main\<close> calls and keeps the arguments
  in the order of the call.
\<close>

datatype 's Scope = StatsAndLogging_scope 's

datatype 's Logger = StatsAndLogging_logger 's

datatype Clock = clock_Default

datatype ('b, 's) SafeBrowsing =
    newGoogleSafeBrowsingV4 "'b option" "'s Logger"
  | newGoogleSafeBrowsing "'b option"

datatype 's CAADistributedResolver =
    cdr_New "'s Scope" Duration int "string list" "'s Logger"

datatype 's DNSResolver =
    is_NewDNSResolverImpl:
      NewDNSResolverImpl Duration "string list" "string list" "'s Scope" Clock int
  | is_NewTestDNSResolverImpl:
      NewTestDNSResolverImpl Duration "string list" "'s Scope" Clock int

text \<open>The retry count and the exception list a resolver was constructed with.\<close>

fun maxTries :: "'s DNSResolver \<Rightarrow> int" where
  "maxTries (NewDNSResolverImpl dnsTimeout servers exceptions scope clk tries) = tries"
| "maxTries (NewTestDNSResolverImpl dnsTimeout servers scope clk tries) = tries"

fun exceptionList :: "'s DNSResolver \<Rightarrow> string list option" where
  "exceptionList (NewDNSResolverImpl dnsTimeout servers exceptions scope clk tries) = Some exceptions"
| "exceptionList (NewTestDNSResolverImpl dnsTimeout servers scope clk tries) = None"

datatype 't TLSConfig = TLS_Load 't

datatype ('t, 's) ClientConn = ClientSetup GRPCClientConfig "'t TLSConfig" "'s Scope"

datatype ('t, 's) VAClient = NewValidationAuthorityGRPCClient "('t, 's) ClientConn"

datatype ('t, 's) RemoteVA = RemoteVA "('t, 's) VAClient" string

text \<open>The eleven arguments of \<open>va.NewValidationAuthorityImpl\<close> (lines 150-161).\<close>

record ('t, 'b, 's) ValidationAuthorityImpl =
  va_pc :: PortConfig
  va_sbc :: "('b, 's) SafeBrowsing"
  va_cdrClient :: "'s CAADistributedResolver option"
  va_resolver :: "'s DNSResolver"
  va_remotes :: "('t, 's) RemoteVA list"
  va_maxRemoteFailures :: "64 word"
  va_userAgent :: string
  va_issuerDomain :: string
  va_scope :: "'s Scope"
  va_clk :: Clock
  va_logger :: "'s Logger"

datatype ('t, 'g, 's) GRPCServer = NewServer 'g "'t TLSConfig" "'s Scope"

subsection \<open>Calls and endings\<close>

datatype ('t, 'g, 'b, 's) call =
    Call_flag_Usage
  | Call_os_Exit int
  | Call_ReadConfigFile string
  | Call_features_Set
  | Call_StatsAndLogging
  | Call_logger_Info
  | Call_SafeBrowsing "('b, 's) SafeBrowsing"
  | Call_cdr "'s CAADistributedResolver"
  | Call_ParseDuration string
  | Call_clock_Default
  | Call_ReadHostList string
  | Call_bdns "'s DNSResolver"
  | Call_TLS_Load
  | Call_ClientSetup GRPCClientConfig
  | Call_VAClient "('t, 's) VAClient"
  | Call_va "('t, 'b, 's) ValidationAuthorityImpl"
  | Call_NewServer
  | Call_RegisterValidationAuthorityGRPCServer
  | Call_go_Serve "('t, 'g, 's) GRPCServer"
  | Call_go_CatchSignals
  | Call_go_DebugServer string
  | Call_go_ProfileCmd
  | Call_FailOnError string error

text \<open>
  \<open>main\<close> ends in one of three ways: \<open>os.Exit(1)\<close> after the usage text, a fatal
  \<open>cmd.FailOnError\<close>, or the final \<open>select {}\<close> with the server running.
\<close>

datatype halt = Exit int | Fatal string error

record ('t, 'g, 'b, 's) running =
  vai :: "('t, 'b, 's) ValidationAuthorityImpl"
  grpcSrv :: "('t, 'g, 's) GRPCServer"

type_synonym ('t, 'g, 'b, 's, 'a) step =
  "('t, 'g, 'b, 's) call list \<times> (halt + 'a)"

subsection \<open>The outside world\<close>

text \<open>
  One function for each call whose result \<open>main\<close> branches on. A call returning a
  value and an error is a pair, as in Go. The calls are functions of their arguments:
  the two calls of \<open>c.VA.TLS.Load()\<close> give the same answer.
\<close>

record ('t, 'g, 'b, 's) env =
  cmd_ReadConfigFile :: "string \<Rightarrow> ('t, 'g, 'b, 's) config \<times> error option"
  features_Set :: "(string \<rightharpoonup> bool) \<Rightarrow> error option"
  features_Enabled_GoogleSafeBrowsingV4 :: "(string \<rightharpoonup> bool) \<Rightarrow> bool"
  newGoogleSafeBrowsingV4_err :: "'b option \<Rightarrow> 's Logger \<Rightarrow> error option"
  newGoogleSafeBrowsing_err :: "'b option \<Rightarrow> error option"
  cdr_New_err :: "'s Scope \<Rightarrow> Duration \<Rightarrow> int \<Rightarrow> string list \<Rightarrow> 's Logger \<Rightarrow> error option"
  time_ParseDuration :: "string \<Rightarrow> Duration \<times> error option"
  bdns_ReadHostList :: "string \<Rightarrow> string list \<times> error option"
  TLS_Load_err :: "'t \<Rightarrow> error option"
  bgrpc_ClientSetup_err :: "GRPCClientConfig \<Rightarrow> 't TLSConfig \<Rightarrow> 's Scope \<Rightarrow> error option"
  bgrpc_NewServer_err :: "'g \<Rightarrow> 't TLSConfig \<Rightarrow> 's Scope \<Rightarrow> error option"
  bgrpc_Register_err :: "('t, 'g, 's) GRPCServer \<Rightarrow> ('t, 'b, 's) ValidationAuthorityImpl \<Rightarrow> error option"

subsection \<open>Sequencing\<close>

definition call :: "('t, 'g, 'b, 's) call \<Rightarrow> ('t, 'g, 'b, 's, unit) step" where
  "call ev = ([ev], Inr ())"

text \<open>
  Modelled from the spec: \<open>cmd.FailOnError\<close> is declared outside the file. The spec
  calls the errors it is given fatal at start-up: with a non-nil error the process
  ends there, with \<open>nil\<close> it returns.
\<close>

definition FailOnError :: "error option \<Rightarrow> string \<Rightarrow> ('t, 'g, 'b, 's, unit) step" where
  "FailOnError err msg =
     (case err of
        None \<Rightarrow> ([], Inr ())
      | Some e \<Rightarrow> ([Call_FailOnError msg e], Inl (Fatal msg e)))"

definition thenDo ::
  "('t, 'g, 'b, 's, 'a) step \<Rightarrow> ('a \<Rightarrow> ('t, 'g, 'b, 's, 'c) step) \<Rightarrow> ('t, 'g, 'b, 's, 'c) step" where
  "thenDo m k =
     (case snd m of
        Inl h \<Rightarrow> (fst m, Inl h)
      | Inr x \<Rightarrow> (fst m @ fst (k x), snd (k x)))"

definition seq ::
  "('t, 'g, 'b, 's, unit) step \<Rightarrow> ('t, 'g, 'b, 's, 'c) step \<Rightarrow> ('t, 'g, 'b, 's, 'c) step" where
  "seq m k = thenDo m (\<lambda>_. k)"

subsection \<open>The pieces of main\<close>

text \<open>Lines 77-90: the default ports, each replaced by a nonzero configured one.\<close>

definition ports :: "PortConfig \<Rightarrow> PortConfig" where
  "ports cfg =
     (let pc = \<lparr>HTTPPort = 80, HTTPSPort = 443, TLSPort = 443\<rparr>;
          pc = (if HTTPPort cfg \<noteq> 0 then pc\<lparr>HTTPPort := HTTPPort cfg\<rparr> else pc);
          pc = (if HTTPSPort cfg \<noteq> 0 then pc\<lparr>HTTPSPort := HTTPSPort cfg\<rparr> else pc);
          pc = (if TLSPort cfg \<noteq> 0 then pc\<lparr>TLSPort := TLSPort cfg\<rparr> else pc)
      in pc)"

text \<open>Lines 117-120.\<close>

definition dnsTries :: "int \<Rightarrow> int" where
  "dnsTries configured = (if configured < 1 then 1 else configured)"

text \<open>Lines 124-137: the resolver. Only the first constructor takes the exception list.\<close>

definition newResolver ::
  "Common_config \<Rightarrow> Duration \<Rightarrow> string list \<Rightarrow> 's Scope \<Rightarrow> Clock \<Rightarrow> int \<Rightarrow> 's DNSResolver" where
  "newResolver common dnsTimeout caaSERVFAILExceptions scope clk tries =
     (if \<not> DNSAllowLoopbackAddresses common
      then NewDNSResolverImpl dnsTimeout [DNSResolver common] caaSERVFAILExceptions scope clk tries
      else NewTestDNSResolverImpl dnsTimeout [DNSResolver common] scope clk tries)"

text \<open>\<open>strings.Join\<close> of the Go library.\<close>

fun strings_Join :: "string list \<Rightarrow> string \<Rightarrow> string" where
  "strings_Join [] sep = []"
| "strings_Join [a] sep = a"
| "strings_Join (a # b # rest) sep = a @ sep @ strings_Join (b # rest) sep"

text \<open>Lines 143-147: the loop over the configured remote VAs, appending to \<open>remotes\<close>.\<close>

fun setupRemotes ::
  "('t, 'g, 'b, 's) env \<Rightarrow> 't TLSConfig \<Rightarrow> 's Scope \<Rightarrow> GRPCClientConfig list \<Rightarrow>
   ('t, 's) RemoteVA list \<Rightarrow> ('t, 'g, 'b, 's, ('t, 's) RemoteVA list) step" where
  "setupRemotes env tls scope [] remotes = ([], Inr remotes)"
| "setupRemotes env tls scope (rva # rvas) remotes =
     (let err = bgrpc_ClientSetup_err env rva tls scope;
          vaConn = ClientSetup rva tls scope;
          client = NewValidationAuthorityGRPCClient vaConn
      in seq (call (Call_ClientSetup rva))
        (seq (FailOnError err ''Unable to create remote VA client'')
        (seq (call (Call_VAClient client))
          (setupRemotes env tls scope rvas
             (remotes @ [RemoteVA client (strings_Join (ServerAddresses rva) '','')])))))"

text \<open>Lines 139-148.\<close>

definition remoteVAs ::
  "('t, 'g, 'b, 's) env \<Rightarrow> ('t, 'g, 'b, 's) config \<Rightarrow> 's Scope \<Rightarrow>
   ('t, 'g, 'b, 's, ('t, 's) RemoteVA list) step" where
  "remoteVAs env c scope =
     (if length (RemoteVAs (VA c)) > 0
      then
        (let tls = TLS_Load (TLS (VA c));
             err = TLS_Load_err env (TLS (VA c))
         in seq (call Call_TLS_Load)
           (seq (FailOnError err ''TLS config'')
             (setupRemotes env tls scope (RemoteVAs (VA c)) [])))
      else ([], Inr []))"

text \<open>Lines 92-101: the reputation client.\<close>

definition safeBrowsing ::
  "('t, 'g, 'b, 's) env \<Rightarrow> ('t, 'g, 'b, 's) config \<Rightarrow> 's Logger \<Rightarrow>
   ('b, 's) SafeBrowsing \<times> error option" where
  "safeBrowsing env c logger =
     (if features_Enabled_GoogleSafeBrowsingV4 env (Features (VA c))
      then (newGoogleSafeBrowsingV4 (GoogleSafeBrowsing (VA c)) logger,
            newGoogleSafeBrowsingV4_err env (GoogleSafeBrowsing (VA c)) logger)
      else (newGoogleSafeBrowsing (GoogleSafeBrowsing (VA c)),
            newGoogleSafeBrowsing_err env (GoogleSafeBrowsing (VA c))))"

text \<open>Lines 103-113: the distributed CAA resolver, \<open>nil\<close> without a configured section.\<close>

definition distributedResolver ::
  "('t, 'g, 'b, 's) env \<Rightarrow> ('t, 'g, 'b, 's) config \<Rightarrow> 's Scope \<Rightarrow> 's Logger \<Rightarrow>
   ('t, 'g, 'b, 's, 's CAADistributedResolver option) step" where
  "distributedResolver env c scope logger =
     (case CAADistributedResolver (VA c) of
        None \<Rightarrow> ([], Inr None)
      | Some d \<Rightarrow>
          (let cdrClient = cdr_New scope (Timeout d) (MaxFailures d) (Proxies d) logger;
               err = cdr_New_err env scope (Timeout d) (MaxFailures d) (Proxies d) logger
           in seq (call (Call_cdr cdrClient))
             (seq (FailOnError err ''Failed to create CAADistributedResolver'')
               ([], Inr (Some cdrClient)))))"

text \<open>
  Lines 163-183: the server, started last. The four \<open>go\<close> statements are recorded in
  program order; what the goroutines do once running (serving, a later failure of
  \<open>Serve\<close>, signals) comes after start-up and is not part of the model, and neither is
  the deferred \<open>logger.AuditPanic()\<close>. The final \<open>select {}\<close> is the ending \<open>Inr\<close>.
\<close>

definition serve ::
  "('t, 'g, 'b, 's) env \<Rightarrow> ('t, 'g, 'b, 's) config \<Rightarrow> 's Scope \<Rightarrow>
   ('t, 'b, 's) ValidationAuthorityImpl \<Rightarrow> ('t, 'g, 'b, 's, ('t, 'g, 'b, 's) running) step" where
  "serve env c scope v =
     (let tls = TLS_Load (TLS (VA c));
          err = TLS_Load_err env (TLS (VA c))
      in seq (call Call_TLS_Load)
        (seq (FailOnError err ''TLS config'')
        (let srv = NewServer (GRPC (VA c)) tls scope;
             err = bgrpc_NewServer_err env (GRPC (VA c)) tls scope
         in seq (call Call_NewServer)
           (seq (FailOnError err ''Unable to setup VA gRPC server'')
           (let err = bgrpc_Register_err env srv v
            in seq (call Call_RegisterValidationAuthorityGRPCServer)
              (seq (FailOnError err ''Unable to register VA gRPC server'')
              (seq (call (Call_go_Serve srv))
              (seq (call Call_go_CatchSignals)
              (seq (call (Call_go_DebugServer (DebugAddr (VA c))))
              (seq (call Call_go_ProfileCmd)
                ([], Inr \<lparr>vai = v, grpcSrv = srv\<rparr>)))))))))))"

text \<open>
  Lines 70-161, after the configuration has been read: every component, ending with the
  validation authority. The result is the pair of \<open>scope\<close> and \<open>vai\<close>, the two locals
  that the rest of \<open>main\<close> uses.
\<close>

definition construct ::
  "('t, 'g, 'b, 's) env \<Rightarrow> ('t, 'g, 'b, 's) config \<Rightarrow>
   ('t, 'g, 'b, 's, 's Scope \<times> ('t, 'b, 's) ValidationAuthorityImpl) step" where
  "construct env c =
     (let err = features_Set env (Features (VA c))
      in seq (call Call_features_Set)
        (seq (FailOnError err ''Failed to set feature flags'')
        (let scope = StatsAndLogging_scope (Syslog c);
             logger = StatsAndLogging_logger (Syslog c);
             pc = ports (PortConfig (VA c));
             sb = safeBrowsing env c logger;
             sbc = fst sb;
             err = snd sb
         in seq (call Call_StatsAndLogging)
           (seq (call Call_logger_Info)
           (seq (call (Call_SafeBrowsing sbc))
           (seq (FailOnError err ''Failed to create Google Safe Browsing client'')
           (thenDo (distributedResolver env c scope logger) (\<lambda>cdrClient.
           (let parsed = time_ParseDuration env (DNSTimeout (Common c));
                dnsTimeout = fst parsed;
                err = snd parsed
            in seq (call (Call_ParseDuration (DNSTimeout (Common c))))
              (seq (FailOnError err ''Couldn't parse DNS timeout'')
              (let tries = dnsTries (DNSTries (VA c));
                   clk = clock_Default;
                   hosts = bdns_ReadHostList env (CAASERVFAILExceptions (VA c));
                   caaSERVFAILExceptions = fst hosts;
                   err = snd hosts
               in seq (call Call_clock_Default)
                 (seq (call (Call_ReadHostList (CAASERVFAILExceptions (VA c))))
                 (seq (FailOnError err ''Couldn't read CAASERVFAILExceptions file'')
                 (let resolver = newResolver (Common c) dnsTimeout caaSERVFAILExceptions scope clk tries
                  in seq (call (Call_bdns resolver))
                    (thenDo (remoteVAs env c scope) (\<lambda>remotes.
                    (let v = \<lparr>va_pc = pc, va_sbc = sbc, va_cdrClient = cdrClient,
                              va_resolver = resolver, va_remotes = remotes,
                              va_maxRemoteFailures = MaxRemoteValidationFailures (VA c),
                              va_userAgent = UserAgent (VA c),
                              va_issuerDomain = IssuerDomain (VA c),
                              va_scope = scope, va_clk = clk, va_logger = logger\<rparr>
                     in seq (call (Call_va v)) ([], Inr (scope, v)))))))))))))))))))"

text \<open>
  Lines 58-68, then the two parts above. The argument is the value of the \<open>-config\<close>
  flag after \<open>flag.Parse()\<close>.
\<close>

definition main ::
  "('t, 'g, 'b, 's) env \<Rightarrow> string \<Rightarrow> ('t, 'g, 'b, 's, ('t, 'g, 'b, 's) running) step" where
  "main env configFile =
     (if configFile = []
      then ([Call_flag_Usage, Call_os_Exit 1], Inl (Exit 1))
      else
        (let r = cmd_ReadConfigFile env configFile;
             c = fst r;
             err = snd r
         in seq (call (Call_ReadConfigFile configFile))
           (seq (FailOnError err ''Reading JSON config file into config structure'')
           (thenDo (construct env c) (\<lambda>(scope, v). serve env c scope v)))))"

subsection \<open>Names for what the loop builds\<close>

text \<open>The client and the \<open>va.RemoteVA\<close> entry that one pass of the loop builds.\<close>

definition mkClient :: "'t TLSConfig \<Rightarrow> 's Scope \<Rightarrow> GRPCClientConfig \<Rightarrow> ('t, 's) VAClient" where
  "mkClient tls scope rva = NewValidationAuthorityGRPCClient (ClientSetup rva tls scope)"

definition mkRemote :: "'t TLSConfig \<Rightarrow> 's Scope \<Rightarrow> GRPCClientConfig \<Rightarrow> ('t, 's) RemoteVA" where
  "mkRemote tls scope rva =
     RemoteVA (NewValidationAuthorityGRPCClient (ClientSetup rva tls scope))
       (strings_Join (ServerAddresses rva) '','')"

subsection \<open>An example configuration and world\<close>

text \<open>
  A configuration with two remote VAs, a distributed CAA resolver, one overridden port
  and a DNS retry count of zero; the loopback switch and the failure threshold are
  left open. In \<open>quiet_world\<close> every call succeeds and the configuration file holds the
  given configuration.
\<close>

definition va_json :: "bool \<Rightarrow> 64 word \<Rightarrow> (unit, unit, unit, unit) config" where
  "va_json loopback threshold =
     \<lparr>VA = \<lparr>TLS = (), GRPC = (), DebugAddr = '':8004'', UserAgent = ''boulder'',
             IssuerDomain = ''happy-hacker-ca.invalid'',
             PortConfig = \<lparr>HTTPPort = 5002, HTTPSPort = 0, TLSPort = 0\<rparr>,
             GoogleSafeBrowsing = None,
             CAADistributedResolver =
               Some \<lparr>Timeout = 3000000000, MaxFailures = 1,
                     Proxies = [''cdr1.example:3128'', ''cdr2.example:3128'']\<rparr>,
             DNSTries = 0,
             CAASERVFAILExceptions = ''caa-servfail-exceptions.txt'',
             RemoteVAs = [\<lparr>ServerAddresses = [''rva1.boulder:9097'', ''rva1b.boulder:9097'']\<rparr>,
                          \<lparr>ServerAddresses = [''rva2.boulder:9098'']\<rparr>],
             MaxRemoteValidationFailures = threshold,
             Features = Map.empty\<rparr>,
      Syslog = (),
      Common = \<lparr>DNSResolver = ''127.0.0.1:8053'', DNSTimeout = ''10s'',
                 DNSAllowLoopbackAddresses = loopback\<rparr>\<rparr>"

definition quiet_world ::
  "(unit, unit, unit, unit) config \<Rightarrow> (unit, unit, unit, unit) env" where
  "quiet_world cfg =
     \<lparr>cmd_ReadConfigFile = (\<lambda>path. (cfg, None)),
      features_Set = (\<lambda>fs. None),
      features_Enabled_GoogleSafeBrowsingV4 = (\<lambda>fs. False),
      newGoogleSafeBrowsingV4_err = (\<lambda>gsb logger. None),
      newGoogleSafeBrowsing_err = (\<lambda>gsb. None),
      cdr_New_err = (\<lambda>scope timeout maxFailures proxies logger. None),
      time_ParseDuration = (\<lambda>text. (10000000000, None)),
      bdns_ReadHostList = (\<lambda>path. ([''servfail.example''], None)),
      TLS_Load_err = (\<lambda>t. None),
      bgrpc_ClientSetup_err = (\<lambda>rva tls scope. None),
      bgrpc_NewServer_err = (\<lambda>g tls scope. None),
      bgrpc_Register_err = (\<lambda>srv v. None)\<rparr>"

text \<open>What \<open>main\<close> builds from the example, for stating the runs below.\<close>

definition va_json_resolver :: "bool \<Rightarrow> unit DNSResolver" where
  "va_json_resolver loopback =
     (if loopback
      then NewTestDNSResolverImpl 10000000000 [''127.0.0.1:8053''] (StatsAndLogging_scope ())
             clock_Default 1
      else NewDNSResolverImpl 10000000000 [''127.0.0.1:8053''] [''servfail.example'']
             (StatsAndLogging_scope ()) clock_Default 1)"

definition va_json_cdr :: "unit CAADistributedResolver" where
  "va_json_cdr =
     cdr_New (StatsAndLogging_scope ()) 3000000000 1 [''cdr1.example:3128'', ''cdr2.example:3128'']
       (StatsAndLogging_logger ())"

definition va_json_client1 :: "(unit, unit) VAClient" where
  "va_json_client1 =
     NewValidationAuthorityGRPCClient
       (ClientSetup \<lparr>ServerAddresses = [''rva1.boulder:9097'', ''rva1b.boulder:9097'']\<rparr>
          (TLS_Load ()) (StatsAndLogging_scope ()))"

definition va_json_client2 :: "(unit, unit) VAClient" where
  "va_json_client2 =
     NewValidationAuthorityGRPCClient
       (ClientSetup \<lparr>ServerAddresses = [''rva2.boulder:9098'']\<rparr>
          (TLS_Load ()) (StatsAndLogging_scope ()))"

definition va_json_vai :: "bool \<Rightarrow> 64 word \<Rightarrow> (unit, unit, unit) ValidationAuthorityImpl" where
  "va_json_vai loopback threshold =
     \<lparr>va_pc = \<lparr>HTTPPort = 5002, HTTPSPort = 443, TLSPort = 443\<rparr>,
      va_sbc = newGoogleSafeBrowsing None,
      va_cdrClient = Some va_json_cdr,
      va_resolver = va_json_resolver loopback,
      va_remotes = [RemoteVA va_json_client1 ''rva1.boulder:9097,rva1b.boulder:9097'',
                    RemoteVA va_json_client2 ''rva2.boulder:9098''],
      va_maxRemoteFailures = threshold,
      va_userAgent = ''boulder'',
      va_issuerDomain = ''happy-hacker-ca.invalid'',
      va_scope = StatsAndLogging_scope (), va_clk = clock_Default,
      va_logger = StatsAndLogging_logger ()\<rparr>"

definition va_json_srv :: "(unit, unit, unit) GRPCServer" where
  "va_json_srv = NewServer () (TLS_Load ()) (StatsAndLogging_scope ())"

text \<open>The same world, except that reading the exception list fails.\<close>

definition missing_hosts_world :: "(unit, unit, unit, unit) env" where
  "missing_hosts_world =
     (quiet_world (va_json False 1))
       \<lparr>bdns_ReadHostList := (\<lambda>path. ([], Some ''no such file or directory''))\<rparr>"

section \<open>Properties\<close>

subsection \<open>Sequencing\<close>

lemma seq_call [simp]: "seq (call ev) k = (ev # fst k, snd k)"
  by (simp add: seq_def thenDo_def call_def)

lemma seq_FailOnError [simp]:
  "seq (FailOnError err msg) k =
     (case err of None \<Rightarrow> k | Some e \<Rightarrow> ([Call_FailOnError msg e], Inl (Fatal msg e)))"
  by (simp add: seq_def thenDo_def FailOnError_def split: option.splits)

lemma fst_thenDo:
  "fst (thenDo m k) = fst m @ (case snd m of Inl h \<Rightarrow> [] | Inr x \<Rightarrow> fst (k x))"
  by (simp add: thenDo_def split: sum.splits)

lemma snd_thenDo:
  "snd (thenDo m k) = (case snd m of Inl h \<Rightarrow> Inl h | Inr x \<Rightarrow> snd (k x))"
  by (simp add: thenDo_def split: sum.splits)

subsection \<open>The loop over the remote VAs\<close>

lemma setupRemotes_Inr:
  "snd (setupRemotes env tls scope rvas acc) = Inr rs \<longleftrightarrow>
     (\<forall>rva \<in> set rvas. bgrpc_ClientSetup_err env rva tls scope = None) \<and>
     rs = acc @ map (mkRemote tls scope) rvas"
  by (induction rvas arbitrary: acc) (auto simp: Let_def mkRemote_def split: option.splits)

lemma setupRemotes_calls:
  "snd (setupRemotes env tls scope rvas acc) = Inr rs \<Longrightarrow>
   fst (setupRemotes env tls scope rvas acc) =
     concat (map (\<lambda>rva. [Call_ClientSetup rva, Call_VAClient (mkClient tls scope rva)]) rvas)"
  by (induction rvas arbitrary: acc) (auto simp: Let_def mkClient_def split: option.splits)

lemma setupRemotes_events:
  "ev \<in> set (fst (setupRemotes env tls scope rvas acc)) \<Longrightarrow>
     (\<exists>rva. ev = Call_ClientSetup rva) \<or> (\<exists>cl. ev = Call_VAClient cl) \<or> (\<exists>msg e. ev = Call_FailOnError msg e)"
  by (induction rvas arbitrary: acc) (auto simp: Let_def split: option.splits)

lemma remoteVAs_events:
  "ev \<in> set (fst (remoteVAs env c scope)) \<Longrightarrow>
     ev = Call_TLS_Load \<or> (\<exists>rva. ev = Call_ClientSetup rva) \<or> (\<exists>cl. ev = Call_VAClient cl) \<or> (\<exists>msg e. ev = Call_FailOnError msg e)"
  by (auto simp: remoteVAs_def Let_def split: option.splits if_splits dest: setupRemotes_events)

lemma remoteVAs_Inr:
  "snd (remoteVAs env c scope) = Inr rs \<longleftrightarrow>
     (RemoteVAs (VA c) \<noteq> [] \<longrightarrow> TLS_Load_err env (TLS (VA c)) = None) \<and>
     (\<forall>rva \<in> set (RemoteVAs (VA c)). bgrpc_ClientSetup_err env rva (TLS_Load (TLS (VA c))) scope = None) \<and>
     rs = map (mkRemote (TLS_Load (TLS (VA c))) scope) (RemoteVAs (VA c))"
  by (auto simp: remoteVAs_def Let_def setupRemotes_Inr split: option.splits)

lemma setupRemotes_clients:
  "snd (setupRemotes env tls scope rvas acc) = Inr rs \<Longrightarrow>
   [cl. Call_VAClient cl \<leftarrow> fst (setupRemotes env tls scope rvas acc)] =
     map (mkClient tls scope) rvas"
  by (induction rvas arbitrary: acc) (auto simp: Let_def mkClient_def split: option.splits)

lemma remoteVAs_clients:
  "snd (remoteVAs env c scope) = Inr rs \<Longrightarrow>
   [cl. Call_VAClient cl \<leftarrow> fst (remoteVAs env c scope)] =
     map (mkClient (TLS_Load (TLS (VA c))) scope) (RemoteVAs (VA c))"
  by (auto simp: remoteVAs_def Let_def setupRemotes_clients split: option.splits if_splits)

lemma remoteVAs_vas:
  "[v. Call_va v \<leftarrow> fst (remoteVAs env c scope)] = []"
  by (auto simp: dest: remoteVAs_events)

subsection \<open>The server part\<close>

lemma serve_Inr:
  "snd (serve env c scope v) = Inr run \<longleftrightarrow>
     TLS_Load_err env (TLS (VA c)) = None \<and>
     bgrpc_NewServer_err env (GRPC (VA c)) (TLS_Load (TLS (VA c))) scope = None \<and>
     bgrpc_Register_err env (NewServer (GRPC (VA c)) (TLS_Load (TLS (VA c))) scope) v = None \<and>
     run = \<lparr>vai = v, grpcSrv = NewServer (GRPC (VA c)) (TLS_Load (TLS (VA c))) scope\<rparr>"
  by (auto simp: serve_def Let_def split: option.splits)

lemma serve_events:
  "ev \<in> set (fst (serve env c scope v)) \<Longrightarrow>
     ev = Call_TLS_Load \<or> ev = Call_NewServer \<or> ev = Call_RegisterValidationAuthorityGRPCServer \<or>
     (\<exists>srv. ev = Call_go_Serve srv) \<or> ev = Call_go_CatchSignals \<or> (\<exists>a. ev = Call_go_DebugServer a) \<or>
     ev = Call_go_ProfileCmd \<or> (\<exists>msg e. ev = Call_FailOnError msg e)"
  by (auto simp: serve_def Let_def split: option.splits if_splits)

subsection \<open>The construction part\<close>

lemmas construct_unfold =
  construct_def Let_def fst_thenDo snd_thenDo distributedResolver_def

lemma remoteVAs_ok:
  assumes "RemoteVAs (VA c) \<noteq> [] \<longrightarrow> TLS_Load_err env (TLS (VA c)) = None"
    and "\<forall>rva \<in> set (RemoteVAs (VA c)). bgrpc_ClientSetup_err env rva (TLS_Load (TLS (VA c))) scope = None"
  shows "snd (remoteVAs env c scope) = Inr (map (mkRemote (TLS_Load (TLS (VA c))) scope) (RemoteVAs (VA c)))"
  using assms remoteVAs_Inr by blast

lemma construct_va:
  assumes "Call_va v \<in> set (fst (construct env c))"
  shows "snd (construct env c) = Inr (StatsAndLogging_scope (Syslog c), v)"
  using assms
  by (auto simp: construct_unfold split: option.splits if_splits sum.splits dest: remoteVAs_events)

lemma construct_Inr:
  fixes env :: "('t, 'g, 'b, 's) env" and c :: "('t, 'g, 'b, 's) config"
  defines "scope \<equiv> StatsAndLogging_scope (Syslog c)"
  defines "logger \<equiv> StatsAndLogging_logger (Syslog c)"
  defines "tls \<equiv> TLS_Load (TLS (VA c))"
  shows "snd (construct env c) = Inr (sc, v) \<longleftrightarrow>
     features_Set env (Features (VA c)) = None \<and>
     snd (safeBrowsing env c logger) = None \<and>
     (\<forall>d. CAADistributedResolver (VA c) = Some d \<longrightarrow>
        cdr_New_err env scope (Timeout d) (MaxFailures d) (Proxies d) logger = None) \<and>
     snd (time_ParseDuration env (DNSTimeout (Common c))) = None \<and>
     snd (bdns_ReadHostList env (CAASERVFAILExceptions (VA c))) = None \<and>
     (RemoteVAs (VA c) \<noteq> [] \<longrightarrow> TLS_Load_err env (TLS (VA c)) = None) \<and>
     (\<forall>rva \<in> set (RemoteVAs (VA c)). bgrpc_ClientSetup_err env rva tls scope = None) \<and>
     sc = scope \<and>
     v = \<lparr>va_pc = ports (PortConfig (VA c)),
          va_sbc = fst (safeBrowsing env c logger),
          va_cdrClient = map_option (\<lambda>d. cdr_New scope (Timeout d) (MaxFailures d) (Proxies d) logger)
                           (CAADistributedResolver (VA c)),
          va_resolver = newResolver (Common c) (fst (time_ParseDuration env (DNSTimeout (Common c))))
                          (fst (bdns_ReadHostList env (CAASERVFAILExceptions (VA c))))
                          scope clock_Default (dnsTries (DNSTries (VA c))),
          va_remotes = map (mkRemote tls scope) (RemoteVAs (VA c)),
          va_maxRemoteFailures = MaxRemoteValidationFailures (VA c),
          va_userAgent = UserAgent (VA c),
          va_issuerDomain = IssuerDomain (VA c),
          va_scope = scope, va_clk = clock_Default, va_logger = logger\<rparr>"
  (is "?L \<longleftrightarrow> ?R")
proof
  assume ?L
  then show ?R
    unfolding scope_def logger_def tls_def
    by (auto simp: construct_unfold remoteVAs_Inr split: option.splits if_splits sum.splits)
next
  assume r: ?R
  then have "snd (remoteVAs env c scope) = Inr (map (mkRemote tls scope) (RemoteVAs (VA c)))"
    unfolding tls_def by (intro remoteVAs_ok) simp_all
  with r show ?L
    unfolding scope_def logger_def tls_def
    by (simp add: construct_unfold split: option.splits)
qed

lemma construct_events_server:
  assumes "ev \<in> set (fst (construct env c))"
  shows "ev \<noteq> Call_NewServer \<and> ev \<noteq> Call_RegisterValidationAuthorityGRPCServer \<and>
         (\<forall>srv. ev \<noteq> Call_go_Serve srv)"
  using assms
  by (auto simp: construct_unfold split: option.splits if_splits sum.splits dest: remoteVAs_events)

lemma construct_bdns:
  assumes "Call_bdns r \<in> set (fst (construct env c))"
  shows "r = newResolver (Common c) (fst (time_ParseDuration env (DNSTimeout (Common c))))
           (fst (bdns_ReadHostList env (CAASERVFAILExceptions (VA c))))
           (StatsAndLogging_scope (Syslog c)) clock_Default (dnsTries (DNSTries (VA c))) \<and>
         snd (bdns_ReadHostList env (CAASERVFAILExceptions (VA c))) = None \<and>
         Call_ReadHostList (CAASERVFAILExceptions (VA c)) \<in> set (fst (construct env c))"
  using assms
  by (auto simp: construct_unfold split: option.splits if_splits sum.splits dest: remoteVAs_events)

lemma construct_cdr:
  assumes "Call_cdr r \<in> set (fst (construct env c))"
  shows "\<exists>d. CAADistributedResolver (VA c) = Some d \<and>
           r = cdr_New (StatsAndLogging_scope (Syslog c)) (Timeout d) (MaxFailures d) (Proxies d)
                 (StatsAndLogging_logger (Syslog c))"
  using assms
  by (auto simp: construct_unfold split: option.splits if_splits sum.splits dest: remoteVAs_events)

lemma main_calls:
  "fst (main env f) =
     (if f = [] then [Call_flag_Usage, Call_os_Exit 1]
      else Call_ReadConfigFile f #
        (case snd (cmd_ReadConfigFile env f) of
           Some e \<Rightarrow> [Call_FailOnError ''Reading JSON config file into config structure'' e]
         | None \<Rightarrow> fst (construct env (fst (cmd_ReadConfigFile env f))) @
             (case snd (construct env (fst (cmd_ReadConfigFile env f))) of
                Inl h \<Rightarrow> []
              | Inr (scope, v) \<Rightarrow> fst (serve env (fst (cmd_ReadConfigFile env f)) scope v))))"
  by (auto simp: main_def Let_def fst_thenDo split: option.splits sum.splits)

lemma main_end:
  "snd (main env f) =
     (if f = [] then Inl (Exit 1)
      else
        (case snd (cmd_ReadConfigFile env f) of
           Some e \<Rightarrow> Inl (Fatal ''Reading JSON config file into config structure'' e)
         | None \<Rightarrow>
             (case snd (construct env (fst (cmd_ReadConfigFile env f))) of
                Inl h \<Rightarrow> Inl h
              | Inr (scope, v) \<Rightarrow> snd (serve env (fst (cmd_ReadConfigFile env f)) scope v))))"
  by (auto simp: main_def Let_def snd_thenDo split: option.splits sum.splits)

lemma main_in_construct:
  fixes env :: "('t, 'g, 'b, 's) env" and f :: string
  defines "c \<equiv> fst (cmd_ReadConfigFile env f)"
  assumes "ev \<in> set (fst (main env f))"
    and "(\<exists>r. ev = Call_bdns r) \<or> (\<exists>r. ev = Call_cdr r) \<or> (\<exists>v. ev = Call_va v) \<or>
         (\<exists>p. ev = Call_ReadHostList p) \<or> (\<exists>cl. ev = Call_VAClient cl) \<or> (\<exists>s. ev = Call_SafeBrowsing s)"
  shows "f \<noteq> [] \<and> snd (cmd_ReadConfigFile env f) = None \<and> ev \<in> set (fst (construct env c))"
  using assms
  by (auto simp: main_calls split: if_splits option.splits sum.splits dest: serve_events)

lemma construct_scope:
  "snd (construct env c) = Inr (sc, v) \<Longrightarrow> sc = StatsAndLogging_scope (Syslog c)"
  by (simp add: construct_Inr)

lemma main_in_serve:
  fixes env :: "('t, 'g, 'b, 's) env" and f :: string
  defines "c \<equiv> fst (cmd_ReadConfigFile env f)"
  assumes "ev \<in> set (fst (main env f))"
    and "ev = Call_NewServer \<or> ev = Call_RegisterValidationAuthorityGRPCServer \<or> (\<exists>srv. ev = Call_go_Serve srv)"
  shows "f \<noteq> [] \<and> snd (cmd_ReadConfigFile env f) = None \<and>
         (\<exists>v. snd (construct env c) = Inr (StatsAndLogging_scope (Syslog c), v) \<and>
              ev \<in> set (fst (serve env c (StatsAndLogging_scope (Syslog c)) v)) \<and>
              fst (main env f) = Call_ReadConfigFile f # fst (construct env c) @
                 fst (serve env c (StatsAndLogging_scope (Syslog c)) v))"
  using assms
  by (auto simp: main_calls split: if_splits option.splits sum.splits
      dest: construct_events_server construct_scope)

lemma setupRemotes_no_failure:
  "snd (setupRemotes env tls scope rvas acc) = Inr rs \<Longrightarrow>
   Call_FailOnError msg e \<notin> set (fst (setupRemotes env tls scope rvas acc))"
  by (auto simp: setupRemotes_calls)

lemma setupRemotes_client:
  "snd (setupRemotes env tls scope rvas acc) = Inr rs \<Longrightarrow> rva \<in> set rvas \<Longrightarrow>
   Call_VAClient (mkClient tls scope rva) \<in> set (fst (setupRemotes env tls scope rvas acc))"
  by (auto simp: setupRemotes_calls)

lemma remoteVAs_no_failure:
  "snd (remoteVAs env c scope) = Inr rs \<Longrightarrow> Call_FailOnError msg e \<notin> set (fst (remoteVAs env c scope))"
  by (auto simp: remoteVAs_def Let_def split: if_splits option.splits dest: setupRemotes_no_failure)

lemma remoteVAs_client:
  "snd (remoteVAs env c scope) = Inr rs \<Longrightarrow> rva \<in> set (RemoteVAs (VA c)) \<Longrightarrow>
   Call_VAClient (mkClient (TLS_Load (TLS (VA c))) scope rva) \<in> set (fst (remoteVAs env c scope))"
  by (auto simp: remoteVAs_def Let_def split: if_splits option.splits dest: setupRemotes_client)

lemma construct_calls:
  assumes "snd (construct env c) = Inr (sc, v)"
  shows "fst (construct env c) =
     [Call_features_Set, Call_StatsAndLogging, Call_logger_Info, Call_SafeBrowsing (va_sbc v)] @
     (case va_cdrClient v of None \<Rightarrow> [] | Some r \<Rightarrow> [Call_cdr r]) @
     [Call_ParseDuration (DNSTimeout (Common c)), Call_clock_Default,
      Call_ReadHostList (CAASERVFAILExceptions (VA c)), Call_bdns (va_resolver v)] @
     fst (remoteVAs env c sc) @ [Call_va v]"
proof -
  note ok = assms [unfolded construct_Inr]
  from ok have "snd (remoteVAs env c (StatsAndLogging_scope (Syslog c))) =
      Inr (map (mkRemote (TLS_Load (TLS (VA c))) (StatsAndLogging_scope (Syslog c))) (RemoteVAs (VA c)))"
    by (intro remoteVAs_ok) simp_all
  with ok show ?thesis
    by (simp add: construct_unfold split: option.splits)
qed

lemma construct_components:
  assumes "snd (construct env c) = Inr (sc, v)"
  shows "Call_va v \<in> set (fst (construct env c)) \<and>
         Call_SafeBrowsing (va_sbc v) \<in> set (fst (construct env c)) \<and>
         Call_bdns (va_resolver v) \<in> set (fst (construct env c)) \<and>
         (\<forall>r. va_cdrClient v = Some r \<longrightarrow> Call_cdr r \<in> set (fst (construct env c))) \<and>
         (\<forall>cl label. RemoteVA cl label \<in> set (va_remotes v) \<longrightarrow>
            Call_VAClient cl \<in> set (fst (construct env c))) \<and>
         (\<forall>msg e. Call_FailOnError msg e \<notin> set (fst (construct env c)))"
proof -
  note ok = assms [unfolded construct_Inr]
  from ok have r: "snd (remoteVAs env c sc) = Inr (va_remotes v)"
    by (simp add: remoteVAs_ok)
  have cl: "Call_VAClient cl \<in> set (fst (remoteVAs env c sc))"
    if "RemoteVA cl label \<in> set (va_remotes v)" for cl label
    using that ok remoteVAs_client [OF r] by (auto simp: mkRemote_def mkClient_def)
  show ?thesis
    using cl remoteVAs_no_failure [OF r]
    by (auto simp: construct_calls [OF assms] split: option.splits)
qed

subsection \<open>The whole of main\<close>

lemma construct_resolvers:
  assumes "Call_bdns r \<in> set (fst (construct env c))"
  shows "[r'. Call_bdns r' \<leftarrow> fst (construct env c)] = [r]"
  using assms
  by (auto simp: construct_unfold split: option.splits if_splits sum.splits dest: remoteVAs_events)

lemma serve_resolvers: "[r'. Call_bdns r' \<leftarrow> fst (serve env c scope v)] = []"
  by (auto dest: serve_events)

lemma main_resolvers:
  assumes "Call_bdns r \<in> set (fst (main env f))"
  shows "[r'. Call_bdns r' \<leftarrow> fst (main env f)] = [r]"
proof -
  let ?c = "fst (cmd_ReadConfigFile env f)"
  from assms have a: "f \<noteq> []" "snd (cmd_ReadConfigFile env f) = None"
    "Call_bdns r \<in> set (fst (construct env ?c))"
    by (simp_all add: main_in_construct)
  show ?thesis
  proof (cases "snd (construct env ?c)")
    case (Inl h)
    with a construct_resolvers [OF a(3)] show ?thesis
      by (simp add: main_calls)
  next
    case (Inr p)
    obtain sc v where "p = (sc, v)" by (cases p)
    with Inr a construct_resolvers [OF a(3)] show ?thesis
      by (simp add: main_calls serve_resolvers)
  qed
qed

lemma main_va:
  fixes env :: "('t, 'g, 'b, 's) env" and f :: string
  defines "c \<equiv> fst (cmd_ReadConfigFile env f)"
  assumes "Call_va v \<in> set (fst (main env f))"
  shows "f \<noteq> [] \<and> snd (cmd_ReadConfigFile env f) = None \<and>
         snd (construct env c) = Inr (StatsAndLogging_scope (Syslog c), v)"
proof -
  from assms have "f \<noteq> [] \<and> snd (cmd_ReadConfigFile env f) = None \<and>
      Call_va v \<in> set (fst (construct env c))"
    by (simp add: main_in_construct)
  then show ?thesis by (simp add: construct_va)
qed

lemma serve_clients: "[cl. Call_VAClient cl \<leftarrow> fst (serve env c scope v)] = []"
  by (auto dest: serve_events)

lemma serve_vas: "[v'. Call_va v' \<leftarrow> fst (serve env c scope v)] = []"
  by (auto dest: serve_events)

lemma main_after_va:
  fixes env :: "('t, 'g, 'b, 's) env" and f :: string
  defines "c \<equiv> fst (cmd_ReadConfigFile env f)"
  defines "scope \<equiv> StatsAndLogging_scope (Syslog c)"
  assumes "Call_va v \<in> set (fst (main env f))"
  shows "fst (main env f) = Call_ReadConfigFile f # fst (construct env c) @ fst (serve env c scope v)"
    and "snd (main env f) = snd (serve env c scope v)"
  using main_va [OF assms(3)] unfolding c_def scope_def
  by (simp_all add: main_calls main_end)

lemma construct_reaches_resolver:
  assumes "Call_ReadHostList p \<in> set (fst (construct env c))"
    and "snd (bdns_ReadHostList env (CAASERVFAILExceptions (VA c))) = None"
  shows "\<exists>r. Call_bdns r \<in> set (fst (construct env c))"
  using assms
  by (auto simp: construct_unfold split: option.splits if_splits sum.splits dest: remoteVAs_events)

lemma construct_hosts_error:
  assumes "Call_ReadHostList p \<in> set (fst (construct env c))"
    and "snd (bdns_ReadHostList env (CAASERVFAILExceptions (VA c))) = Some e"
  shows "snd (construct env c) = Inl (Fatal ''Couldn't read CAASERVFAILExceptions file'' e)"
  using assms
  by (auto simp: construct_unfold split: option.splits if_splits sum.splits dest: remoteVAs_events)



subsection \<open>Running the example\<close>

lemmas run_defs = main_def construct_def serve_def remoteVAs_def distributedResolver_def
  safeBrowsing_def newResolver_def ports_def dnsTries_def quiet_world_def va_json_def
  Let_def fst_thenDo snd_thenDo

lemmas example_defs = va_json_resolver_def va_json_cdr_def va_json_client1_def
  va_json_client2_def va_json_vai_def va_json_srv_def

lemma quiet_run:
  "main (quiet_world (va_json loopback threshold)) ''va.json'' =
     ([Call_ReadConfigFile ''va.json'', Call_features_Set, Call_StatsAndLogging, Call_logger_Info,
       Call_SafeBrowsing (newGoogleSafeBrowsing None), Call_cdr va_json_cdr,
       Call_ParseDuration ''10s'', Call_clock_Default,
       Call_ReadHostList ''caa-servfail-exceptions.txt'',
       Call_bdns (va_json_resolver loopback), Call_TLS_Load,
       Call_ClientSetup \<lparr>ServerAddresses = [''rva1.boulder:9097'', ''rva1b.boulder:9097'']\<rparr>,
       Call_VAClient va_json_client1,
       Call_ClientSetup \<lparr>ServerAddresses = [''rva2.boulder:9098'']\<rparr>,
       Call_VAClient va_json_client2,
       Call_va (va_json_vai loopback threshold),
       Call_TLS_Load, Call_NewServer, Call_RegisterValidationAuthorityGRPCServer,
       Call_go_Serve va_json_srv, Call_go_CatchSignals, Call_go_DebugServer '':8004'',
       Call_go_ProfileCmd],
      Inr \<lparr>vai = va_json_vai loopback threshold, grpcSrv = va_json_srv\<rparr>)"
  by (simp add: run_defs example_defs prod_eq_iff)

lemma quiet_config:
  "fst (cmd_ReadConfigFile (quiet_world cfg) path) = cfg"
  by (simp add: quiet_world_def)

lemma missing_hosts_run:
  "main missing_hosts_world ''va.json'' =
     ([Call_ReadConfigFile ''va.json'', Call_features_Set, Call_StatsAndLogging, Call_logger_Info,
       Call_SafeBrowsing (newGoogleSafeBrowsing None), Call_cdr va_json_cdr,
       Call_ParseDuration ''10s'', Call_clock_Default,
       Call_ReadHostList ''caa-servfail-exceptions.txt'',
       Call_FailOnError ''Couldn't read CAASERVFAILExceptions file'' ''no such file or directory''],
      Inl (Fatal ''Couldn't read CAASERVFAILExceptions file'' ''no such file or directory''))"
  by (simp add: missing_hosts_world_def run_defs example_defs prod_eq_iff)

section \<open>The claims\<close>

text \<open>
  C10. Invoked with an empty \<open>-config\<close> value, the program prints the usage text and
  exits with status 1; these are its only two calls, so no configuration is read and
  no service is started.
\<close>

theorem usage_exit_without_config:
  "main env [] = ([Call_flag_Usage, Call_os_Exit 1], Inl (Exit 1))"
  by (simp add: main_def)

text \<open>
  C2. Whatever resolver \<open>main\<close> constructs, the retry count passed to its constructor
  is the configured \<open>DNSTries\<close> when that is at least 1, and 1 when it is less than 1.
\<close>

theorem dns_tries_clamped:
  fixes env :: "('t, 'g, 'b, 's) env" and f :: string
  defines "c \<equiv> fst (cmd_ReadConfigFile env f)"
  assumes "Call_bdns r \<in> set (fst (main env f))"
  shows "(1 \<le> DNSTries (VA c) \<longrightarrow> maxTries r = DNSTries (VA c)) \<and>
         (DNSTries (VA c) < 1 \<longrightarrow> maxTries r = 1)"
proof -
  from assms have "Call_bdns r \<in> set (fst (construct env c))"
    by (simp add: main_in_construct)
  then show ?thesis
    by (auto simp: newResolver_def dnsTries_def dest!: construct_bdns)
qed

theorem dns_tries_clamped_witness:
  "DNSTries (VA (va_json False 1)) < 1 \<and>
   Call_bdns (NewDNSResolverImpl 10000000000 [''127.0.0.1:8053''] [''servfail.example'']
                (StatsAndLogging_scope ()) clock_Default 1)
     \<in> set (fst (main (quiet_world (va_json False 1)) ''va.json'')) \<and>
   maxTries (NewDNSResolverImpl 10000000000 [''127.0.0.1:8053''] [''servfail.example'']
                (StatsAndLogging_scope ()) clock_Default 1) = 1"
proof -
  have h: "Call_bdns (NewDNSResolverImpl 10000000000 [''127.0.0.1:8053''] [''servfail.example'']
                (StatsAndLogging_scope ()) clock_Default 1)
     \<in> set (fst (main (quiet_world (va_json False 1)) ''va.json''))"
    by (simp add: run_defs)
  have t: "DNSTries (VA (fst (cmd_ReadConfigFile (quiet_world (va_json False 1)) ''va.json''))) < 1"
    by (simp add: quiet_world_def va_json_def)
  from dns_tries_clamped [OF h] t h show ?thesis
    by (simp add: quiet_world_def va_json_def)
qed

text \<open>
  C3. Whenever \<open>main\<close> constructs a resolver, it constructs exactly one: the production
  resolver \<open>NewDNSResolverImpl\<close> exactly when \<open>DNSAllowLoopbackAddresses\<close> is false, the
  test resolver \<open>NewTestDNSResolverImpl\<close> exactly when it is true. And a resolver is
  constructed in every run that gets as far as reading the exception list without
  error.
\<close>

theorem resolver_variant_follows_loopback_switch:
  fixes env :: "('t, 'g, 'b, 's) env" and f :: string
  defines "c \<equiv> fst (cmd_ReadConfigFile env f)"
  defines "path \<equiv> CAASERVFAILExceptions (VA c)"
  shows "(\<forall>r. Call_bdns r \<in> set (fst (main env f)) \<longrightarrow>
            (is_NewDNSResolverImpl r \<longleftrightarrow> \<not> DNSAllowLoopbackAddresses (Common c)) \<and>
            (is_NewTestDNSResolverImpl r \<longleftrightarrow> DNSAllowLoopbackAddresses (Common c)) \<and>
            [r'. Call_bdns r' \<leftarrow> fst (main env f)] = [r]) \<and>
         (Call_ReadHostList path \<in> set (fst (main env f)) \<and>
          snd (bdns_ReadHostList env path) = None \<longrightarrow>
            (\<exists>r. Call_bdns r \<in> set (fst (main env f))))"
proof (intro conjI allI impI)
  fix r assume r: "Call_bdns r \<in> set (fst (main env f))"
  then have "Call_bdns r \<in> set (fst (construct env c))"
    unfolding c_def by (simp add: main_in_construct)
  then have v: "(is_NewDNSResolverImpl r \<longleftrightarrow> \<not> DNSAllowLoopbackAddresses (Common c)) \<and>
         (is_NewTestDNSResolverImpl r \<longleftrightarrow> DNSAllowLoopbackAddresses (Common c))"
    by (auto simp: newResolver_def split: if_splits dest!: construct_bdns)
  from v show "is_NewDNSResolverImpl r \<longleftrightarrow> \<not> DNSAllowLoopbackAddresses (Common c)" by simp
  from v show "is_NewTestDNSResolverImpl r \<longleftrightarrow> DNSAllowLoopbackAddresses (Common c)" by simp
  from main_resolvers [OF r] show "[r'. Call_bdns r' \<leftarrow> fst (main env f)] = [r]" .
next
  assume a: "Call_ReadHostList path \<in> set (fst (main env f)) \<and>
             snd (bdns_ReadHostList env path) = None"
  then have "Call_ReadHostList path \<in> set (fst (main env f))" by simp
  then have in_c: "f \<noteq> []" "snd (cmd_ReadConfigFile env f) = None"
    "Call_ReadHostList path \<in> set (fst (construct env c))"
    unfolding c_def by (simp_all add: main_in_construct)
  from a have "snd (bdns_ReadHostList env (CAASERVFAILExceptions (VA c))) = None"
    by (simp add: path_def)
  from construct_reaches_resolver [OF in_c(3) this] in_c(1,2)
  show "\<exists>r. Call_bdns r \<in> set (fst (main env f))"
    by (auto simp: main_calls c_def)
qed

theorem resolver_variant_follows_loopback_switch_witness:
  "Call_bdns (NewTestDNSResolverImpl 10000000000 [''127.0.0.1:8053''] (StatsAndLogging_scope ())
       clock_Default 1)
     \<in> set (fst (main (quiet_world (va_json True 1)) ''va.json'')) \<and>
   DNSAllowLoopbackAddresses (Common (va_json True 1)) \<and>
   is_NewTestDNSResolverImpl (NewTestDNSResolverImpl 10000000000 [''127.0.0.1:8053'']
       (StatsAndLogging_scope ()) clock_Default 1) \<and>
   [r'. Call_bdns r' \<leftarrow> fst (main (quiet_world (va_json True 1)) ''va.json'')] =
     [NewTestDNSResolverImpl 10000000000 [''127.0.0.1:8053''] (StatsAndLogging_scope ())
       clock_Default 1] \<and>
   Call_ReadHostList ''caa-servfail-exceptions.txt''
     \<in> set (fst (main (quiet_world (va_json True 1)) ''va.json'')) \<and>
   snd (bdns_ReadHostList (quiet_world (va_json True 1)) ''caa-servfail-exceptions.txt'') = None"
proof -
  have h: "Call_bdns (NewTestDNSResolverImpl 10000000000 [''127.0.0.1:8053'']
       (StatsAndLogging_scope ()) clock_Default 1)
     \<in> set (fst (main (quiet_world (va_json True 1)) ''va.json''))"
    by (simp add: quiet_run va_json_resolver_def)
  have l: "DNSAllowLoopbackAddresses (Common (va_json True 1))"
    and p: "CAASERVFAILExceptions (VA (va_json True 1)) = ''caa-servfail-exceptions.txt''"
    by (simp_all add: va_json_def)
  have m: "Call_ReadHostList ''caa-servfail-exceptions.txt''
      \<in> set (fst (main (quiet_world (va_json True 1)) ''va.json''))"
    by (simp add: quiet_run)
  have e: "snd (bdns_ReadHostList (quiet_world (va_json True 1)) ''caa-servfail-exceptions.txt'') = None"
    by (simp add: quiet_world_def)
  note t = resolver_variant_follows_loopback_switch
    [of "quiet_world (va_json True 1)" "''va.json''", unfolded quiet_config p]
  note t1 = t [THEN conjunct1, THEN spec, THEN mp, OF h]
  note t2 = t [THEN conjunct2, THEN mp, OF conjI, OF m e]
  from t1 l have "is_NewTestDNSResolverImpl (NewTestDNSResolverImpl 10000000000
       [''127.0.0.1:8053''] (StatsAndLogging_scope ()) clock_Default 1)"
    by blast
  with h l m e t1 [THEN conjunct2, THEN conjunct2] t2 show ?thesis by blast
qed

text \<open>
  C5. The ports handed to the validation authority are 80 for \<open>HTTPPort\<close> and 443 for
  \<open>HTTPSPort\<close> and \<open>TLSPort\<close>, each replaced by the configured value when that is
  nonzero and kept when it is zero.
\<close>

theorem challenge_ports_default_or_configured:
  fixes env :: "('t, 'g, 'b, 's) env" and f :: string
  defines "p \<equiv> PortConfig (VA (fst (cmd_ReadConfigFile env f)))"
  assumes "Call_va v \<in> set (fst (main env f))"
  shows "HTTPPort (va_pc v) = (if HTTPPort p \<noteq> 0 then HTTPPort p else 80) \<and>
         HTTPSPort (va_pc v) = (if HTTPSPort p \<noteq> 0 then HTTPSPort p else 443) \<and>
         TLSPort (va_pc v) = (if TLSPort p \<noteq> 0 then TLSPort p else 443)"
  using main_va [OF assms(2)] unfolding p_def
  by (simp add: construct_Inr ports_def Let_def)


theorem challenge_ports_default_or_configured_witness:
  "Call_va (va_json_vai False 1) \<in> set (fst (main (quiet_world (va_json False 1)) ''va.json'')) \<and>
   HTTPPort (va_pc (va_json_vai False 1)) = 5002 \<and>
   HTTPSPort (va_pc (va_json_vai False 1)) = 443 \<and>
   TLSPort (va_pc (va_json_vai False 1)) = 443"
proof -
  have h: "Call_va (va_json_vai False 1)
      \<in> set (fst (main (quiet_world (va_json False 1)) ''va.json''))"
    by (simp add: quiet_run)
  from challenge_ports_default_or_configured [OF h] h show ?thesis
    by (simp add: quiet_config va_json_def)
qed

text \<open>
  C6. A distributed CAA resolver is constructed only when the configuration has a
  \<open>CAADistributedResolver\<close> section, and then with exactly the configured timeout,
  max-failures count and proxies. The validation authority is handed that resolver when
  the section is present, in which case it has been constructed, and \<open>nil\<close> when the
  section is absent.
\<close>

theorem distributed_resolver_iff_configured:
  fixes env :: "('t, 'g, 'b, 's) env" and f :: string
  defines "c \<equiv> fst (cmd_ReadConfigFile env f)"
  defines "new \<equiv> (\<lambda>d. cdr_New (StatsAndLogging_scope (Syslog c)) (Timeout d) (MaxFailures d)
                        (Proxies d) (StatsAndLogging_logger (Syslog c)))"
  shows "(\<forall>r. Call_cdr r \<in> set (fst (main env f)) \<longrightarrow>
            (\<exists>d. CAADistributedResolver (VA c) = Some d \<and> r = new d)) \<and>
         (\<forall>v. Call_va v \<in> set (fst (main env f)) \<longrightarrow>
            va_cdrClient v = map_option new (CAADistributedResolver (VA c)) \<and>
            (\<forall>d. CAADistributedResolver (VA c) = Some d \<longrightarrow> Call_cdr (new d) \<in> set (fst (main env f))))"
proof (intro conjI allI impI)
  fix r assume "Call_cdr r \<in> set (fst (main env f))"
  then have "Call_cdr r \<in> set (fst (construct env c))"
    unfolding c_def by (simp add: main_in_construct)
  then show "\<exists>d. CAADistributedResolver (VA c) = Some d \<and> r = new d"
    unfolding new_def by (rule construct_cdr)
next
  fix v assume v: "Call_va v \<in> set (fst (main env f))"
  note ok = main_va [OF v, folded c_def]
  then show "va_cdrClient v = map_option new (CAADistributedResolver (VA c))"
    by (simp add: construct_Inr new_def)
  fix d assume d: "CAADistributedResolver (VA c) = Some d"
  from ok d have "va_cdrClient v = Some (new d)"
    by (simp add: construct_Inr new_def)
  with ok construct_components [of env c "StatsAndLogging_scope (Syslog c)" v]
  have "Call_cdr (new d) \<in> set (fst (construct env c))" by simp
  with ok show "Call_cdr (new d) \<in> set (fst (main env f))"
    by (simp add: main_calls c_def)
qed

theorem distributed_resolver_iff_configured_witness:
  "Call_va (va_json_vai False 1) \<in> set (fst (main (quiet_world (va_json False 1)) ''va.json'')) \<and>
   CAADistributedResolver (VA (va_json False 1)) =
     Some \<lparr>Timeout = 3000000000, MaxFailures = 1,
           Proxies = [''cdr1.example:3128'', ''cdr2.example:3128'']\<rparr> \<and>
   va_cdrClient (va_json_vai False 1) = Some va_json_cdr \<and>
   Call_cdr va_json_cdr \<in> set (fst (main (quiet_world (va_json False 1)) ''va.json''))"
proof -
  have h: "Call_va (va_json_vai False 1)
      \<in> set (fst (main (quiet_world (va_json False 1)) ''va.json''))"
    by (simp add: quiet_run)
  note t = distributed_resolver_iff_configured
    [of "quiet_world (va_json False 1)" "''va.json''", THEN conjunct2, THEN spec, THEN mp, OF h]
  have d: "CAADistributedResolver (VA (va_json False 1)) =
     Some \<lparr>Timeout = 3000000000, MaxFailures = 1,
           Proxies = [''cdr1.example:3128'', ''cdr2.example:3128'']\<rparr>"
    by (simp add: va_json_def)
  from t [THEN conjunct1] have 1: "va_cdrClient (va_json_vai False 1) = Some va_json_cdr"
    by (simp add: quiet_config d va_json_cdr_def va_json_def va_json_vai_def)
  from t [THEN conjunct2, THEN spec, THEN mp, unfolded quiet_config, OF d]
  have 2: "Call_cdr va_json_cdr \<in> set (fst (main (quiet_world (va_json False 1)) ''va.json''))"
    by (simp add: va_json_cdr_def va_json_def)
  from h d 1 2 show ?thesis by blast
qed

text \<open>
  C7. When \<open>main\<close> calls the constructor of the validation authority, the remote VAs
  it passes are one per configured entry, in order, each a client made by
  \<open>ClientSetup\<close> for that entry together with the entry's addresses joined by commas
  as its label; these clients are all the clients \<open>main\<close> makes; the failure threshold
  passed is the configured one; the constructor is called once; and the validation
  authority that is served is the one constructed.
\<close>

theorem remote_clients_one_per_entry:
  fixes env :: "('t, 'g, 'b, 's) env" and f :: string
  defines "c \<equiv> fst (cmd_ReadConfigFile env f)"
  defines "tls \<equiv> TLS_Load (TLS (VA c))"
  defines "scope \<equiv> StatsAndLogging_scope (Syslog c)"
  assumes "Call_va v \<in> set (fst (main env f))"
  shows "va_remotes v =
           map (\<lambda>rva. RemoteVA (NewValidationAuthorityGRPCClient (ClientSetup rva tls scope))
                         (strings_Join (ServerAddresses rva) '','')) (RemoteVAs (VA c)) \<and>
         [cl. Call_VAClient cl \<leftarrow> fst (main env f)] =
           map (\<lambda>rva. NewValidationAuthorityGRPCClient (ClientSetup rva tls scope)) (RemoteVAs (VA c)) \<and>
         va_maxRemoteFailures v = MaxRemoteValidationFailures (VA c) \<and>
         [v'. Call_va v' \<leftarrow> fst (main env f)] = [v] \<and>
         (\<forall>run. snd (main env f) = Inr run \<longrightarrow> vai run = v)"
proof -
  note va = main_va [OF assms(4), folded c_def scope_def]
  then have ok: "snd (construct env c) = Inr (scope, v)" by simp
  note fields = ok [unfolded construct_Inr, folded scope_def tls_def]
  from fields have r: "snd (remoteVAs env c scope) = Inr (va_remotes v)"
    unfolding scope_def tls_def by (simp add: remoteVAs_ok)
  have 1: "va_remotes v =
           map (\<lambda>rva. RemoteVA (NewValidationAuthorityGRPCClient (ClientSetup rva tls scope))
                         (strings_Join (ServerAddresses rva) '','')) (RemoteVAs (VA c))"
    using fields by (simp add: mkRemote_def [abs_def])
  have 2: "[cl. Call_VAClient cl \<leftarrow> fst (main env f)] =
           map (\<lambda>rva. NewValidationAuthorityGRPCClient (ClientSetup rva tls scope)) (RemoteVAs (VA c))"
    using remoteVAs_clients [OF r]
    by (auto simp: main_after_va [OF assms(4), folded c_def scope_def] construct_calls [OF ok]
        serve_clients mkClient_def [abs_def] tls_def split: option.splits)
  have 3: "va_maxRemoteFailures v = MaxRemoteValidationFailures (VA c)"
    using fields by simp
  have 4: "[v'. Call_va v' \<leftarrow> fst (main env f)] = [v]"
    by (auto simp: main_after_va [OF assms(4), folded c_def scope_def] construct_calls [OF ok]
        serve_vas remoteVAs_vas split: option.splits)
  have 5: "\<forall>run. snd (main env f) = Inr run \<longrightarrow> vai run = v"
    by (auto simp: main_after_va [OF assms(4), folded c_def scope_def] serve_Inr)
  from 1 2 3 4 5 show ?thesis by blast
qed

theorem remote_clients_one_per_entry_witness:
  "Call_va (va_json_vai False 1) \<in> set (fst (main (quiet_world (va_json False 1)) ''va.json'')) \<and>
   length (RemoteVAs (VA (va_json False 1))) = 2 \<and>
   va_remotes (va_json_vai False 1) =
     [RemoteVA va_json_client1 ''rva1.boulder:9097,rva1b.boulder:9097'',
      RemoteVA va_json_client2 ''rva2.boulder:9098''] \<and>
   [cl. Call_VAClient cl \<leftarrow> fst (main (quiet_world (va_json False 1)) ''va.json'')] =
     [va_json_client1, va_json_client2] \<and>
   [v'. Call_va v' \<leftarrow> fst (main (quiet_world (va_json False 1)) ''va.json'')] =
     [va_json_vai False 1]"
proof -
  have h: "Call_va (va_json_vai False 1)
      \<in> set (fst (main (quiet_world (va_json False 1)) ''va.json''))"
    by (simp add: quiet_run)
  note t = remote_clients_one_per_entry [OF h, unfolded quiet_config]
  have l: "length (RemoteVAs (VA (va_json False 1))) = 2"
    by (simp add: va_json_def)
  have r: "va_remotes (va_json_vai False 1) =
     [RemoteVA va_json_client1 ''rva1.boulder:9097,rva1b.boulder:9097'',
      RemoteVA va_json_client2 ''rva2.boulder:9098'']"
    by (simp add: va_json_vai_def)
  from t [THEN conjunct2, THEN conjunct1]
  have c: "[cl. Call_VAClient cl \<leftarrow> fst (main (quiet_world (va_json False 1)) ''va.json'')] =
     [va_json_client1, va_json_client2]"
    by (simp add: va_json_def va_json_client1_def va_json_client2_def)
  from h l r c t [THEN conjunct2, THEN conjunct2, THEN conjunct2, THEN conjunct1]
  show ?thesis by blast
qed

text \<open>
  C8. With \<open>DNSAllowLoopbackAddresses\<close> set, the resolver constructed is the test
  resolver, whose constructor takes no exception list; a resolver constructed with
  an exception list is the production resolver, with the switch off.
\<close>

theorem test_resolver_gets_no_exception_list:
  fixes env :: "('t, 'g, 'b, 's) env" and f :: string
  defines "c \<equiv> fst (cmd_ReadConfigFile env f)"
  assumes "Call_bdns r \<in> set (fst (main env f))"
  shows "(DNSAllowLoopbackAddresses (Common c) \<longrightarrow>
            r = NewTestDNSResolverImpl (fst (time_ParseDuration env (DNSTimeout (Common c))))
                  [DNSResolver (Common c)] (StatsAndLogging_scope (Syslog c)) clock_Default
                  (dnsTries (DNSTries (VA c))) \<and>
            exceptionList r = None) \<and>
         (\<forall>l. exceptionList r = Some l \<longrightarrow>
            is_NewDNSResolverImpl r \<and> \<not> DNSAllowLoopbackAddresses (Common c))"
proof -
  from assms have "Call_bdns r \<in> set (fst (construct env c))"
    by (simp add: main_in_construct)
  then show ?thesis
    by (auto simp: newResolver_def split: if_splits dest!: construct_bdns)
qed

theorem test_resolver_gets_no_exception_list_witness:
  "DNSAllowLoopbackAddresses (Common (va_json True 1)) \<and>
   Call_bdns (NewTestDNSResolverImpl 10000000000 [''127.0.0.1:8053''] (StatsAndLogging_scope ())
       clock_Default 1)
     \<in> set (fst (main (quiet_world (va_json True 1)) ''va.json'')) \<and>
   exceptionList (NewTestDNSResolverImpl 10000000000 [''127.0.0.1:8053'']
       (StatsAndLogging_scope ()) clock_Default (1 :: int)) = None"
proof -
  have h: "Call_bdns (NewTestDNSResolverImpl 10000000000 [''127.0.0.1:8053'']
       (StatsAndLogging_scope ()) clock_Default 1)
     \<in> set (fst (main (quiet_world (va_json True 1)) ''va.json''))"
    by (simp add: quiet_run va_json_resolver_def)
  have l: "DNSAllowLoopbackAddresses (Common (va_json True 1))"
    by (simp add: va_json_def)
  from test_resolver_gets_no_exception_list [OF h, unfolded quiet_config, THEN conjunct1, THEN mp, OF l]
    h l show ?thesis by blast
qed

text \<open>
  C1, as the claim states it, fails: with a threshold of 3 and two remote VAs, and
  every call succeeding, \<open>main\<close> hands the threshold 3 to the validation authority
  and starts the server.
\<close>

theorem threshold_above_set_size_still_serves:
  "int (length (RemoteVAs (VA (va_json False 3)))) <
     sint (MaxRemoteValidationFailures (VA (va_json False 3))) \<and>
   snd (main (quiet_world (va_json False 3)) ''va.json'') =
     Inr \<lparr>vai = va_json_vai False 3, grpcSrv = va_json_srv\<rparr> \<and>
   va_maxRemoteFailures (va_json_vai False 3) = 3 \<and>
   length (va_remotes (va_json_vai False 3)) = 2 \<and>
   Call_go_Serve va_json_srv \<in> set (fst (main (quiet_world (va_json False 3)) ''va.json''))"
proof -
  have "int (length (RemoteVAs (VA (va_json False 3)))) <
      sint (MaxRemoteValidationFailures (VA (va_json False 3)))"
    by (simp add: va_json_def)
  moreover have "va_maxRemoteFailures (va_json_vai False 3) = 3 \<and>
      length (va_remotes (va_json_vai False 3)) = 2"
    by (simp add: va_json_vai_def)
  ultimately show ?thesis
    by (simp add: quiet_run)
qed

text \<open>
  C1, amended. \<open>main\<close> does not compare the threshold with the number of remote VAs:
  the constructor of the validation authority is called exactly when the configuration
  path is not empty and every fallible call before it returns no error, whatever the
  threshold and the number of remote VAs. At that call the threshold passed is the
  configured one and the remote VAs are as many as configured; from there start-up
  goes on to serve exactly when loading the TLS configuration, setting up the server
  and registering the service succeed, which is also exactly when \<open>Serve\<close> is started.
\<close>

theorem threshold_passed_unchecked:
  fixes env :: "('t, 'g, 'b, 's) env" and f :: string
  defines "c \<equiv> fst (cmd_ReadConfigFile env f)"
  defines "tls \<equiv> TLS_Load (TLS (VA c))"
  defines "scope \<equiv> StatsAndLogging_scope (Syslog c)"
  defines "logger \<equiv> StatsAndLogging_logger (Syslog c)"
  defines "srv \<equiv> NewServer (GRPC (VA c)) tls scope"
  shows "((\<exists>v. Call_va v \<in> set (fst (main env f))) \<longleftrightarrow>
            f \<noteq> [] \<and>
            snd (cmd_ReadConfigFile env f) = None \<and>
            features_Set env (Features (VA c)) = None \<and>
            (if features_Enabled_GoogleSafeBrowsingV4 env (Features (VA c))
             then newGoogleSafeBrowsingV4_err env (GoogleSafeBrowsing (VA c)) logger
             else newGoogleSafeBrowsing_err env (GoogleSafeBrowsing (VA c))) = None \<and>
            (\<forall>d. CAADistributedResolver (VA c) = Some d \<longrightarrow>
               cdr_New_err env scope (Timeout d) (MaxFailures d) (Proxies d) logger = None) \<and>
            snd (time_ParseDuration env (DNSTimeout (Common c))) = None \<and>
            snd (bdns_ReadHostList env (CAASERVFAILExceptions (VA c))) = None \<and>
            (RemoteVAs (VA c) \<noteq> [] \<longrightarrow> TLS_Load_err env (TLS (VA c)) = None) \<and>
            (\<forall>rva \<in> set (RemoteVAs (VA c)). bgrpc_ClientSetup_err env rva tls scope = None)) \<and>
         (\<forall>v. Call_va v \<in> set (fst (main env f)) \<longrightarrow>
            va_maxRemoteFailures v = MaxRemoteValidationFailures (VA c) \<and>
            length (va_remotes v) = length (RemoteVAs (VA c)) \<and>
            ((\<exists>run. snd (main env f) = Inr run) \<longleftrightarrow>
               TLS_Load_err env (TLS (VA c)) = None \<and>
               bgrpc_NewServer_err env (GRPC (VA c)) tls scope = None \<and>
               bgrpc_Register_err env srv v = None) \<and>
            ((\<exists>run. snd (main env f) = Inr run) \<longleftrightarrow>
               Call_go_Serve srv \<in> set (fst (main env f))))"
    (is "(?reached \<longleftrightarrow> ?calls) \<and> ?passed")
proof (intro conjI)
  have sb: "snd (safeBrowsing env c logger) =
      (if features_Enabled_GoogleSafeBrowsingV4 env (Features (VA c))
       then newGoogleSafeBrowsingV4_err env (GoogleSafeBrowsing (VA c)) logger
       else newGoogleSafeBrowsing_err env (GoogleSafeBrowsing (VA c)))"
    by (simp add: safeBrowsing_def)
  show "?reached \<longleftrightarrow> ?calls"
  proof
    assume ?reached
    then obtain v where v: "Call_va v \<in> set (fst (main env f))" by blast
    note va = main_va [OF v, folded c_def scope_def]
    then have "snd (construct env c) = Inr (scope, v)" by simp
    note fields = this [unfolded construct_Inr, folded scope_def logger_def tls_def, unfolded sb]
    from va fields show ?calls by simp
  next
    assume calls: ?calls
    then have "\<exists>v. snd (construct env c) = Inr (scope, v)"
      unfolding construct_Inr sb [unfolded logger_def] scope_def logger_def tls_def by simp
    then obtain v where ok: "snd (construct env c) = Inr (scope, v)" by blast
    from construct_components [OF ok] have "Call_va v \<in> set (fst (construct env c))" by simp
    with calls have "Call_va v \<in> set (fst (main env f))"
      by (simp add: main_calls c_def)
    then show ?reached by blast
  qed
  show ?passed
  proof (intro allI impI)
    fix v assume v: "Call_va v \<in> set (fst (main env f))"
    note va = main_va [OF v, folded c_def scope_def]
    then have ok: "snd (construct env c) = Inr (scope, v)" by simp
    note fields = ok [unfolded construct_Inr]
    note after = main_after_va [OF v, folded c_def scope_def]
    have 1: "va_maxRemoteFailures v = MaxRemoteValidationFailures (VA c)"
      and 2: "length (va_remotes v) = length (RemoteVAs (VA c))"
      using fields by simp_all
    have 3: "(\<exists>run. snd (main env f) = Inr run) \<longleftrightarrow>
              TLS_Load_err env (TLS (VA c)) = None \<and>
              bgrpc_NewServer_err env (GRPC (VA c)) tls scope = None \<and>
              bgrpc_Register_err env srv v = None"
      by (simp add: after serve_Inr tls_def srv_def)
    have 4: "(\<exists>run. snd (main env f) = Inr run) \<longleftrightarrow> Call_go_Serve srv \<in> set (fst (main env f))"
      using construct_events_server [of "Call_go_Serve srv" env c]
      unfolding 3 by (auto simp: after serve_def Let_def tls_def srv_def split: option.splits)
    from 1 2 3 4
    show "va_maxRemoteFailures v = MaxRemoteValidationFailures (VA c) \<and>
            length (va_remotes v) = length (RemoteVAs (VA c)) \<and>
            ((\<exists>run. snd (main env f) = Inr run) \<longleftrightarrow>
               TLS_Load_err env (TLS (VA c)) = None \<and>
               bgrpc_NewServer_err env (GRPC (VA c)) tls scope = None \<and>
               bgrpc_Register_err env srv v = None) \<and>
            ((\<exists>run. snd (main env f) = Inr run) \<longleftrightarrow>
               Call_go_Serve srv \<in> set (fst (main env f)))"
      by blast
  qed
qed

theorem threshold_passed_unchecked_witness:
  "int (length (RemoteVAs (VA (va_json False 3)))) <
     sint (MaxRemoteValidationFailures (VA (va_json False 3))) \<and>
   ''va.json'' \<noteq> [] \<and>
   snd (cmd_ReadConfigFile (quiet_world (va_json False 3)) ''va.json'') = None \<and>
   snd (bdns_ReadHostList (quiet_world (va_json False 3)) ''caa-servfail-exceptions.txt'') = None \<and>
   Call_va (va_json_vai False 3) \<in> set (fst (main (quiet_world (va_json False 3)) ''va.json'')) \<and>
   va_maxRemoteFailures (va_json_vai False 3) = 3 \<and>
   Call_go_Serve va_json_srv \<in> set (fst (main (quiet_world (va_json False 3)) ''va.json''))"
proof -
  note t = threshold_passed_unchecked
    [of "quiet_world (va_json False 3)" "''va.json''", unfolded quiet_config]
  have c: "MaxRemoteValidationFailures (VA (va_json False 3)) = 3"
    "length (RemoteVAs (VA (va_json False 3))) = 2"
    by (simp_all add: va_json_def)
  then have above: "int (length (RemoteVAs (VA (va_json False 3)))) <
      sint (MaxRemoteValidationFailures (VA (va_json False 3)))"
    by simp
  have h: "Call_va (va_json_vai False 3)
      \<in> set (fst (main (quiet_world (va_json False 3)) ''va.json''))"
    by (simp add: quiet_run)
  then have "\<exists>v. Call_va v \<in> set (fst (main (quiet_world (va_json False 3)) ''va.json''))"
    by blast
  note calls = t [THEN conjunct1, THEN iffD1, OF this]
  note passed = t [THEN conjunct2, THEN spec, THEN mp, OF h]
  from passed [THEN conjunct1] c have m: "va_maxRemoteFailures (va_json_vai False 3) = 3"
    by simp
  have p: "CAASERVFAILExceptions (VA (va_json False 3)) = ''caa-servfail-exceptions.txt''"
    by (simp add: va_json_def)
  have s: "Call_go_Serve va_json_srv \<in> set (fst (main (quiet_world (va_json False 3)) ''va.json''))"
    by (simp add: quiet_run)
  from above h m s calls [THEN conjunct1] calls [THEN conjunct2, THEN conjunct1]
    calls [THEN conjunct2, THEN conjunct2, THEN conjunct2, THEN conjunct2, THEN conjunct2,
           THEN conjunct2, THEN conjunct1, unfolded p]
  show ?thesis by blast
qed

text \<open>
  C4, as the claim states it, fails: with \<open>DNSAllowLoopbackAddresses\<close> set, the list
  read from the file is not part of the resolver that is constructed and served.
\<close>

theorem exception_list_skipped_by_test_resolver:
  "fst (bdns_ReadHostList (quiet_world (va_json True 1))
          (CAASERVFAILExceptions (VA (va_json True 1)))) = [''servfail.example''] \<and>
   Call_bdns (NewTestDNSResolverImpl 10000000000 [''127.0.0.1:8053''] (StatsAndLogging_scope ())
       clock_Default 1)
     \<in> set (fst (main (quiet_world (va_json True 1)) ''va.json'')) \<and>
   exceptionList (NewTestDNSResolverImpl 10000000000 [''127.0.0.1:8053'']
       (StatsAndLogging_scope ()) clock_Default (1 :: int)) \<noteq> Some [''servfail.example''] \<and>
   Call_go_Serve (NewServer () (TLS_Load ()) (StatsAndLogging_scope ()))
     \<in> set (fst (main (quiet_world (va_json True 1)) ''va.json''))"
proof -
  have "fst (bdns_ReadHostList (quiet_world (va_json True 1))
          (CAASERVFAILExceptions (VA (va_json True 1)))) = [''servfail.example'']"
    by (simp add: quiet_world_def)
  then show ?thesis
    by (simp add: quiet_run va_json_resolver_def va_json_srv_def)
qed

text \<open>
  C4, amended. Whenever a resolver is constructed, the exception list has been read
  from the configured file without error, and with \<open>DNSAllowLoopbackAddresses\<close> off
  the resolver is constructed with that list. If the read is made and fails, start-up
  ends with a fatal error: no resolver is constructed and the server is never started.
\<close>

theorem exception_list_read_and_given_to_production_resolver:
  fixes env :: "('t, 'g, 'b, 's) env" and f :: string
  defines "c \<equiv> fst (cmd_ReadConfigFile env f)"
  defines "path \<equiv> CAASERVFAILExceptions (VA c)"
  shows "(\<forall>r. Call_bdns r \<in> set (fst (main env f)) \<longrightarrow>
            Call_ReadHostList path \<in> set (fst (main env f)) \<and>
            snd (bdns_ReadHostList env path) = None \<and>
            (\<not> DNSAllowLoopbackAddresses (Common c) \<longrightarrow>
               exceptionList r = Some (fst (bdns_ReadHostList env path)))) \<and>
         (\<forall>e. Call_ReadHostList path \<in> set (fst (main env f)) \<and>
              snd (bdns_ReadHostList env path) = Some e \<longrightarrow>
            snd (main env f) = Inl (Fatal ''Couldn't read CAASERVFAILExceptions file'' e) \<and>
            (\<forall>r. Call_bdns r \<notin> set (fst (main env f))) \<and>
            (\<forall>srv. Call_go_Serve srv \<notin> set (fst (main env f))))"
proof (intro conjI allI impI)
  fix r assume r: "Call_bdns r \<in> set (fst (main env f))"
  then have in_c: "f \<noteq> []" "snd (cmd_ReadConfigFile env f) = None"
    "Call_bdns r \<in> set (fst (construct env c))"
    unfolding c_def by (simp_all add: main_in_construct)
  note b = construct_bdns [OF in_c(3), folded path_def]
  from b in_c show "Call_ReadHostList path \<in> set (fst (main env f))"
    by (simp add: main_calls c_def)
  from b show "snd (bdns_ReadHostList env path) = None" by simp
  assume "\<not> DNSAllowLoopbackAddresses (Common c)"
  with b show "exceptionList r = Some (fst (bdns_ReadHostList env path))"
    by (simp add: newResolver_def)
next
  fix e
  assume a: "Call_ReadHostList path \<in> set (fst (main env f)) \<and>
             snd (bdns_ReadHostList env path) = Some e"
  then have "Call_ReadHostList path \<in> set (fst (main env f))" by simp
  then have in_c: "f \<noteq> []" "snd (cmd_ReadConfigFile env f) = None"
    "Call_ReadHostList path \<in> set (fst (construct env c))"
    unfolding c_def by (simp_all add: main_in_construct)
  from a have e: "snd (bdns_ReadHostList env (CAASERVFAILExceptions (VA c))) = Some e"
    by (simp add: path_def)
  note fatal = construct_hosts_error [OF in_c(3) e]
  with in_c show "snd (main env f) = Inl (Fatal ''Couldn't read CAASERVFAILExceptions file'' e)"
    by (simp add: main_end c_def)
  show "Call_bdns r \<notin> set (fst (main env f))" for r
    using construct_bdns [of r env c] e main_in_construct [of "Call_bdns r" env f]
    by (auto simp: c_def)
  show "Call_go_Serve srv \<notin> set (fst (main env f))" for srv
    using fatal main_in_serve [of "Call_go_Serve srv" env f]
    by (auto simp: c_def)
qed

theorem exception_list_read_and_given_to_production_resolver_witness:
  "Call_bdns (NewDNSResolverImpl 10000000000 [''127.0.0.1:8053''] [''servfail.example'']
       (StatsAndLogging_scope ()) clock_Default 1)
     \<in> set (fst (main (quiet_world (va_json False 1)) ''va.json'')) \<and>
   \<not> DNSAllowLoopbackAddresses (Common (va_json False 1)) \<and>
   fst (bdns_ReadHostList (quiet_world (va_json False 1)) ''caa-servfail-exceptions.txt'') =
     [''servfail.example''] \<and>
   Call_ReadHostList ''caa-servfail-exceptions.txt'' \<in> set (fst (main missing_hosts_world ''va.json'')) \<and>
   snd (bdns_ReadHostList missing_hosts_world ''caa-servfail-exceptions.txt'') =
     Some ''no such file or directory'' \<and>
   snd (main missing_hosts_world ''va.json'') =
     Inl (Fatal ''Couldn't read CAASERVFAILExceptions file'' ''no such file or directory'')"
proof -
  have p: "CAASERVFAILExceptions (VA (va_json False 1)) = ''caa-servfail-exceptions.txt''"
    and l: "\<not> DNSAllowLoopbackAddresses (Common (va_json False 1))"
    by (simp_all add: va_json_def)
  have h: "Call_bdns (NewDNSResolverImpl 10000000000 [''127.0.0.1:8053''] [''servfail.example'']
       (StatsAndLogging_scope ()) clock_Default 1)
     \<in> set (fst (main (quiet_world (va_json False 1)) ''va.json''))"
    by (simp add: quiet_run va_json_resolver_def)
  note t1 = exception_list_read_and_given_to_production_resolver
    [of "quiet_world (va_json False 1)" "''va.json''", unfolded quiet_config p,
     THEN conjunct1, THEN spec, THEN mp, OF h]
  from t1 l have 1: "fst (bdns_ReadHostList (quiet_world (va_json False 1))
      ''caa-servfail-exceptions.txt'') = [''servfail.example'']"
    by simp
  have c: "fst (cmd_ReadConfigFile missing_hosts_world ''va.json'') = va_json False 1"
    by (simp add: missing_hosts_world_def quiet_world_def)
  have m: "Call_ReadHostList ''caa-servfail-exceptions.txt''
      \<in> set (fst (main missing_hosts_world ''va.json''))"
    by (simp add: missing_hosts_run)
  have e: "snd (bdns_ReadHostList missing_hosts_world ''caa-servfail-exceptions.txt'') =
      Some ''no such file or directory''"
    by (simp add: missing_hosts_world_def)
  note t2 = exception_list_read_and_given_to_production_resolver
    [of missing_hosts_world "''va.json''", unfolded c p,
     THEN conjunct2, THEN spec, THEN mp, OF conjI, OF m e]
  from h l 1 m e t2 [THEN conjunct1] show ?thesis by blast
qed



end
